theory Spec2Isabelle
  imports Main "HOL-Library.AList"
begin

section \<open>JavaScript values\<close>

text \<open>
  The state tree of \<^verbatim>\<open>StateManager\<close> is what \<^verbatim>\<open>JSON.parse\<close> returns and what
  \<^verbatim>\<open>set\<close> writes into it: \<^verbatim>\<open>undefined\<close>, \<^verbatim>\<open>null\<close>, booleans, numbers, strings and
  plain objects. An object is the list of its own properties in insertion order
  (JavaScript lists the keys that are array indices first; nothing here depends on
  that), and its prototype is \<^verbatim>\<open>Object.prototype\<close>, as for every object that
  \<^verbatim>\<open>JSON.parse\<close> or a literal \<^verbatim>\<open>{}\<close> makes. Reading a key can therefore reach two more
  kinds of value: a built-in function, found under the name of a method of
  \<^verbatim>\<open>Object.prototype\<close>, and \<^verbatim>\<open>Object.prototype\<close> itself, found under \<^verbatim>\<open>__proto__\<close>.
  \<^verbatim>\<open>Object.prototype\<close> is the one the language defines, with no member added or
  replaced. Arrays are not modelled. Numbers are integers; only their being zero or
  not is ever read.
\<close>

datatype jv =
    JUndef
  | JNull
  | JBool bool
  | JNum int
  | JStr string
  | JObj "(string \<times> jv) list"
  | JFun string
  | JProto

datatype jstype = TUndefined | TObject | TBoolean | TNumber | TString | TFunction

text \<open>
  \<open>OutsideModel\<close> is not an exception of the source. It marks a step whose effect this
  model has no place for: a write to \<^verbatim>\<open>Object.prototype\<close>, a write through the
  inherited accessor \<^verbatim>\<open>__proto__\<close> (which replaces an object's prototype or does
  nothing), and a property access on a built-in function. The source goes on there;
  the model says no more about the call.
\<close>

datatype error = TypeError | QuotaExceededError | ListenerError | OutsideModel

text \<open>\<^verbatim>\<open>typeof\<close>: \<^verbatim>\<open>null\<close> has type \<^verbatim>\<open>'object'\<close>.\<close>

fun typeof :: "jv \<Rightarrow> jstype" where
  "typeof JUndef = TUndefined"
| "typeof JNull = TObject"
| "typeof (JBool b) = TBoolean"
| "typeof (JNum n) = TNumber"
| "typeof (JStr s) = TString"
| "typeof (JObj ps) = TObject"
| "typeof (JFun f) = TFunction"
| "typeof JProto = TObject"

text \<open>Truthiness, as \<^verbatim>\<open>if (x)\<close>, \<^verbatim>\<open>!x\<close>, \<^verbatim>\<open>x && y\<close> and \<^verbatim>\<open>x || y\<close> read a value.\<close>

fun truthy :: "jv \<Rightarrow> bool" where
  "truthy JUndef = False"
| "truthy JNull = False"
| "truthy (JBool b) = b"
| "truthy (JNum n) = (n \<noteq> 0)"
| "truthy (JStr s) = (s \<noteq> [])"
| "truthy (JObj ps) = True"
| "truthy (JFun f) = True"
| "truthy JProto = True"

text \<open>
  The own properties of \<^verbatim>\<open>Object.prototype\<close>: its methods, and the accessor
  \<^verbatim>\<open>__proto__\<close>, whose getter returns the prototype of the object it is read on.
\<close>

definition prototype_methods :: "string list" where
  "prototype_methods =
     [''constructor'', ''__defineGetter__'', ''__defineSetter__'', ''hasOwnProperty'',
      ''__lookupGetter__'', ''__lookupSetter__'', ''isPrototypeOf'', ''propertyIsEnumerable'',
      ''toString'', ''valueOf'', ''toLocaleString'']"

definition prototype_names :: "string list" where
  "prototype_names = prototype_methods @ [''__proto__'']"

text \<open>What a plain object shows under a key that is not its own.\<close>

definition inherited :: "string \<Rightarrow> jv" where
  "inherited k =
     (if k \<in> set prototype_methods then JFun k
      else if k = ''__proto__'' then JProto
      else JUndef)"

text \<open>
  What \<^verbatim>\<open>Object.prototype\<close> shows under a key: its own prototype is \<^verbatim>\<open>null\<close>.
\<close>

definition prototype_member :: "string \<Rightarrow> jv" where
  "prototype_member k =
     (if k \<in> set prototype_methods then JFun k
      else if k = ''__proto__'' then JNull
      else JUndef)"

text \<open>
  \<^verbatim>\<open>key in x\<close> follows the prototype chain, and throws a TypeError when \<^verbatim>\<open>x\<close> is
  not an object.
\<close>

fun js_in :: "string \<Rightarrow> jv \<Rightarrow> error + bool" where
  "js_in k (JObj ps) = Inr (k \<in> fst ` set ps \<or> k \<in> set prototype_names)"
| "js_in k JProto = Inr (k \<in> set prototype_names)"
| "js_in k (JFun f) = Inl OutsideModel"
| "js_in k v = Inl TypeError"

text \<open>
  \<^verbatim>\<open>x[key]\<close> throws a TypeError on \<^verbatim>\<open>undefined\<close> and \<^verbatim>\<open>null\<close>; a property that is
  neither own nor inherited reads as \<^verbatim>\<open>undefined\<close>. On a primitive the program reads
  only \<^verbatim>\<open>collapsed\<close> and \<^verbatim>\<open>theme\<close>, which no primitive has; a string has its
  \<^verbatim>\<open>length\<close>, and the other members of the primitives are not modelled.
\<close>

fun js_read :: "jv \<Rightarrow> string \<Rightarrow> error + jv" where
  "js_read (JObj ps) k = Inr (case map_of ps k of Some v \<Rightarrow> v | None \<Rightarrow> inherited k)"
| "js_read JProto k = Inr (prototype_member k)"
| "js_read (JFun f) k = Inl OutsideModel"
| "js_read JUndef k = Inl TypeError"
| "js_read JNull k = Inl TypeError"
| "js_read (JStr s) k = Inr (if k = ''length'' then JNum (int (length s)) else JUndef)"
| "js_read v k = Inr JUndef"

text \<open>
  \<^verbatim>\<open>x[key] = v\<close> in strict code (a class body is strict): a TypeError unless
  \<^verbatim>\<open>x\<close> is an object. On a plain object an existing property keeps its place and a
  new one goes last; a method name that is only inherited becomes an own property.
  The key \<^verbatim>\<open>__proto__\<close>, when it is not an own property, is the inherited setter.
\<close>

fun js_assign :: "jv \<Rightarrow> string \<Rightarrow> jv \<Rightarrow> error + jv" where
  "js_assign (JObj ps) k v =
     (if k = ''__proto__'' \<and> k \<notin> fst ` set ps then Inl OutsideModel
      else Inr (JObj (AList.update k v ps)))"
| "js_assign JProto k v = Inl OutsideModel"
| "js_assign (JFun f) k v = Inl OutsideModel"
| "js_assign x k v = Inl TypeError"

section \<open>Strings\<close>

text \<open>\<^verbatim>\<open>s.split(c)\<close> for a one-character separator: never an empty list.\<close>

fun split :: "char \<Rightarrow> string \<Rightarrow> string list" where
  "split c [] = [[]]"
| "split c (x # xs) =
     (if x = c then [] # split c xs
      else (case split c xs of w # ws \<Rightarrow> (x # w) # ws | [] \<Rightarrow> [[x]]))"

section \<open>StateManager\<close>

text \<open>
  \<^verbatim>\<open>localStorage\<close>, as far as the program uses it: the item under
  \<^verbatim>\<open>'arc-shopping-list-state'\<close> (the JSON text of a tree, kept here as the tree) and the
  item under \<^verbatim>\<open>'arc-shopping-list-theme'\<close>. \<open>writable\<close> is False for a storage whose
  \<^verbatim>\<open>setItem\<close> throws (quota, security).
\<close>

record storage =
  state_item :: "jv option"
  theme_item :: "string option"
  writable :: bool

text \<open>
  A listener is a callback known by a number. \<open>faulty\<close> lists the callbacks that
  throw when called; \<open>calls\<close> is the log of every call made, in order. What a
  callback does besides returning or throwing is its own business: here it leaves the
  manager as it is.
\<close>

record state_manager =
  state :: jv
  listeners :: "(string \<times> nat list) list"
  faulty :: "nat list"
  calls :: "(nat \<times> string \<times> jv) list"
  localStorage :: storage

definition setItem_state :: "jv \<Rightarrow> storage \<Rightarrow> error + storage" where
  "setItem_state t st =
     (if writable st then Inr (st\<lparr>state_item := Some t\<rparr>) else Inl QuotaExceededError)"

definition setItem_theme :: "string \<Rightarrow> storage \<Rightarrow> error + storage" where
  "setItem_theme s st =
     (if writable st then Inr (st\<lparr>theme_item := Some s\<rparr>) else Inl QuotaExceededError)"

definition removeItem_state :: "storage \<Rightarrow> storage" where
  "removeItem_state st = st\<lparr>state_item := None\<rparr>"

definition removeItem_theme :: "storage \<Rightarrow> storage" where
  "removeItem_theme st = st\<lparr>theme_item := None\<rparr>"

text \<open>\<^verbatim>\<open>saveState\<close>: the exception of \<^verbatim>\<open>setItem\<close> is caught and logged.\<close>

definition saveState :: "state_manager \<Rightarrow> state_manager" where
  "saveState sm =
     (case setItem_state (state sm) (localStorage sm) of
        Inr st \<Rightarrow> sm\<lparr>localStorage := st\<rparr>
      | Inl e \<Rightarrow> sm)"

text \<open>
  \<^verbatim>\<open>get(path, defaultValue)\<close>: the loop over the keys. \<^verbatim>\<open>&&\<close> evaluates
  \<^verbatim>\<open>key in current\<close> only when \<^verbatim>\<open>current\<close> is truthy and of type object.
\<close>

fun get_walk :: "string list \<Rightarrow> jv \<Rightarrow> jv \<Rightarrow> error + jv" where
  "get_walk [] d current = Inr current"
| "get_walk (key # keys) d current =
     (if truthy current \<and> typeof current = TObject then
        (case js_in key current of
           Inl e \<Rightarrow> Inl e
         | Inr b \<Rightarrow>
             if b then
               (case js_read current key of
                  Inl e \<Rightarrow> Inl e
                | Inr v \<Rightarrow> get_walk keys d v)
             else Inr d)
      else Inr d)"

definition get :: "string \<Rightarrow> jv \<Rightarrow> state_manager \<Rightarrow> error + jv" where
  "get path defaultValue sm = get_walk (split (CHR ''.'') path) defaultValue (state sm)"

text \<open>
  \<^verbatim>\<open>set(path, value)\<close>: the walk to the parent object and the final assignment.
  \<^verbatim>\<open>||\<close> evaluates \<^verbatim>\<open>typeof current[key]\<close> only when the key is in \<^verbatim>\<open>current\<close>.
  The source mutates the nodes in place; here the walk returns the new node. With no
  key left (which \<^verbatim>\<open>split\<close> never gives) \<^verbatim>\<open>finalKey\<close> is \<^verbatim>\<open>undefined\<close>, the property
  named \<^verbatim>\<open>'undefined'\<close>. When the walk throws, the nodes it created before stay in the
  source's tree; the model returns the error alone.
\<close>

fun set_walk :: "string list \<Rightarrow> jv \<Rightarrow> jv \<Rightarrow> error + jv" where
  "set_walk [] v current = js_assign current ''undefined'' v"
| "set_walk [finalKey] v current = js_assign current finalKey v"
| "set_walk (key # keys) v current =
     (case js_in key current of
        Inl e \<Rightarrow> Inl e
      | Inr b \<Rightarrow>
          (case (if b then js_read current key else Inr JUndef) of
             Inl e \<Rightarrow> Inl e
           | Inr old \<Rightarrow>
               (case (if \<not> b \<or> typeof old \<noteq> TObject
                      then js_assign current key (JObj []) else Inr current) of
                  Inl e \<Rightarrow> Inl e
                | Inr current1 \<Rightarrow>
                    (case js_read current1 key of
                       Inl e \<Rightarrow> Inl e
                     | Inr child \<Rightarrow>
                         (case set_walk keys v child of
                            Inl e \<Rightarrow> Inl e
                          | Inr child' \<Rightarrow> js_assign current1 key child')))))"

text \<open>
  \<^verbatim>\<open>notifyListeners\<close>: every callback of the path's set is called inside its own
  \<^verbatim>\<open>try\<close>. The call is recorded, the callback returns or throws, and what it throws
  is caught and logged.
\<close>

definition call_listener ::
  "string \<Rightarrow> jv \<Rightarrow> state_manager \<Rightarrow> nat \<Rightarrow> state_manager \<times> error option" where
  "call_listener path v sm cb =
     (sm\<lparr>calls := calls sm @ [(cb, path, v)]\<rparr>,
      if cb \<in> set (faulty sm) then Some ListenerError else None)"

definition try_listener :: "string \<Rightarrow> jv \<Rightarrow> state_manager \<Rightarrow> nat \<Rightarrow> state_manager" where
  "try_listener path v sm cb =
     (case call_listener path v sm cb of (sm', thrown) \<Rightarrow> sm')"

definition notifyListeners :: "string \<Rightarrow> jv \<Rightarrow> state_manager \<Rightarrow> state_manager" where
  "notifyListeners path v sm =
     (case map_of (listeners sm) path of
        Some cbs \<Rightarrow> foldl (try_listener path v) sm cbs
      | None \<Rightarrow> sm)"

definition set_sm :: "string \<Rightarrow> jv \<Rightarrow> state_manager \<Rightarrow> error + state_manager" where
  "set_sm path v sm =
     (case set_walk (split (CHR ''.'') path) v (state sm) of
        Inl e \<Rightarrow> Inl e
      | Inr t \<Rightarrow> Inr (notifyListeners path v (saveState (sm\<lparr>state := t\<rparr>))))"

text \<open>
  \<^verbatim>\<open>addListener\<close>: the callbacks of a path are a \<^verbatim>\<open>Set\<close>, so a callback that is
  already there is not added again.
\<close>

definition addListener :: "string \<Rightarrow> nat \<Rightarrow> state_manager \<Rightarrow> state_manager" where
  "addListener path cb sm =
     (let cbs = (case map_of (listeners sm) path of Some cs \<Rightarrow> cs | None \<Rightarrow> [])
      in sm\<lparr>listeners :=
              AList.update path (if cb \<in> set cbs then cbs else cbs @ [cb]) (listeners sm)\<rparr>)"

text \<open>\<^verbatim>\<open>localStorage.getItem('arc-shopping-list-theme') || 'light'\<close>\<close>

definition stored_theme_or_light :: "storage \<Rightarrow> string" where
  "stored_theme_or_light st =
     (case theme_item st of
        Some s \<Rightarrow> if s \<noteq> [] then s else ''light''
      | None \<Rightarrow> ''light'')"

definition initializeStateStructure :: "state_manager \<Rightarrow> error + state_manager" where
  "initializeStateStructure sm =
     (case js_read (state sm) ''collapsed'' of
        Inl e \<Rightarrow> Inl e
      | Inr c \<Rightarrow>
          (case (if \<not> truthy c then js_assign (state sm) ''collapsed'' (JObj [])
                 else Inr (state sm)) of
             Inl e \<Rightarrow> Inl e
           | Inr t1 \<Rightarrow>
               (case js_read t1 ''theme'' of
                  Inl e \<Rightarrow> Inl e
                | Inr th \<Rightarrow>
                    (case (if \<not> truthy th
                           then js_assign t1 ''theme''
                                  (JStr (stored_theme_or_light (localStorage sm)))
                           else Inr t1) of
                       Inl e \<Rightarrow> Inl e
                     | Inr t2 \<Rightarrow> Inr (sm\<lparr>state := t2\<rparr>)))))"

definition clearState :: "state_manager \<Rightarrow> error + state_manager" where
  "clearState sm =
     (case initializeStateStructure (sm\<lparr>state := JObj []\<rparr>) of
        Inl e \<Rightarrow> Inl e
      | Inr sm1 \<Rightarrow>
          Inr (sm1\<lparr>localStorage := removeItem_theme (removeItem_state (localStorage sm1))\<rparr>))"

text \<open>\<^verbatim>\<open>isItemCompleted\<close>: the path is the template \<^verbatim>\<open>`${projectName}.${itemId}`\<close>.\<close>

definition isItemCompleted :: "string \<Rightarrow> string \<Rightarrow> state_manager \<Rightarrow> error + jv" where
  "isItemCompleted projectName itemId sm = get (projectName @ ''.'' @ itemId) (JBool False) sm"

text \<open>
  What the specification calls the value at a path. A value is traversable when it is
  an object; a key is present in an object when it is an own property or a member of
  \<^verbatim>\<open>Object.prototype\<close>, and absent otherwise.
\<close>

fun present :: "jv \<Rightarrow> string \<Rightarrow> jv option" where
  "present (JObj ps) k =
     (case map_of ps k of
        Some v \<Rightarrow> Some v
      | None \<Rightarrow> if k \<in> set prototype_names then Some (inherited k) else None)"
| "present JProto k = (if k \<in> set prototype_names then Some (prototype_member k) else None)"
| "present t k = None"

fun path_lookup :: "string list \<Rightarrow> jv \<Rightarrow> jv option" where
  "path_lookup [] t = Some t"
| "path_lookup (k # ks) t =
     (case present t k of Some v \<Rightarrow> path_lookup ks v | None \<Rightarrow> None)"


section \<open>Items and quantities\<close>

text \<open>
  The \<^verbatim>\<open>quantity\<close> field as the JSON file gives it: absent, \<^verbatim>\<open>null\<close>, a number or a
  string. A number is an integer below \<open>10\<^sup>2\<^sup>1\<close> in size, which prints as its decimal
  digits. Characters are the code units up to 255.
\<close>

datatype raw = Missing | RawNull | RawNum int | RawStr string

record item =
  name :: string
  quantity :: raw
  requirement :: string
  item_id :: "string option"
  projectName :: "string option"


definition js_space :: "char \<Rightarrow> bool" where
  "js_space c = (c \<in> List.set [CHR 0x09, CHR 0x0A, CHR 0x0B, CHR 0x0C, CHR 0x0D, CHR 0x20, CHR 0xA0])"

definition trim :: "string \<Rightarrow> string" where
  "trim s = rev (dropWhile js_space (rev (dropWhile js_space s)))"

function digits_of :: "nat \<Rightarrow> string" where
  "digits_of n =
     (if n < 10 then [''0123456789'' ! n]
      else digits_of (n div 10) @ [''0123456789'' ! (n mod 10)])"
  by pat_completeness auto
termination
  by (relation "measure (\<lambda>n. n)") auto

definition ToString :: "raw \<Rightarrow> string" where
  "ToString q =
     (case q of
        Missing \<Rightarrow> ''undefined''
      | RawNull \<Rightarrow> ''null''
      | RawNum n \<Rightarrow> (if n < 0 then CHR ''-'' # digits_of (nat (- n)) else digits_of (nat n))
      | RawStr s \<Rightarrow> s)"

definition digit_value :: "char \<Rightarrow> nat option" where
  "digit_value c =
     (let n = (of_char c :: nat) in
      if 48 \<le> n \<and> n \<le> 57 then Some (n - 48)
      else if 97 \<le> n \<and> n \<le> 122 then Some (n - 87)
      else if 65 \<le> n \<and> n \<le> 90 then Some (n - 55)
      else None)"

definition radix_digit :: "nat \<Rightarrow> char \<Rightarrow> bool" where
  "radix_digit R c = (case digit_value c of Some d \<Rightarrow> d < R | None \<Rightarrow> False)"

definition number_of :: "nat \<Rightarrow> string \<Rightarrow> nat" where
  "number_of R ds = foldl (\<lambda>a c. a * R + (case digit_value c of Some d \<Rightarrow> d | None \<Rightarrow> 0)) 0 ds"

text \<open>
  \<^verbatim>\<open>parseInt(string, radix)\<close>, with \<open>None\<close> for \<^verbatim>\<open>NaN\<close> and for an omitted radix:
  leading white space is skipped, a sign is read, \<^verbatim>\<open>0x\<close> selects base 16 unless a
  radix other than 16 is given, and the longest run of digits is the number.
  \<^verbatim>\<open>-0\<close> is \<open>Some 0\<close>: it is falsy as \<open>0\<close> is.
\<close>

definition parseInt :: "string \<Rightarrow> nat option \<Rightarrow> int option" where
  "parseInt inputString radix =
     (let S = dropWhile js_space inputString;
          sign = (if take 1 S = ''-'' then - 1 else (1::int));
          S1 = (if take 1 S = ''-'' \<or> take 1 S = ''+'' then drop 1 S else S);
          R0 = (case radix of Some r \<Rightarrow> r | None \<Rightarrow> 0)
      in if R0 \<noteq> 0 \<and> (R0 < 2 \<or> 36 < R0) then None
         else
           let stripPrefix = (R0 = 0 \<or> R0 = 16);
               hex = (stripPrefix \<and> (take 2 S1 = ''0x'' \<or> take 2 S1 = ''0X''));
               R = (if hex then 16 else if R0 = 0 then 10 else R0);
               S2 = (if hex then drop 2 S1 else S1);
               Z = takeWhile (radix_digit R) S2
           in if Z = [] then None else Some (sign * int (number_of R Z)))"

text \<open>\<^verbatim>\<open>n || 1\<close> for a number \<^verbatim>\<open>n\<close>: \<^verbatim>\<open>NaN\<close> and \<open>0\<close> are falsy.\<close>

definition or_one :: "int option \<Rightarrow> int" where
  "or_one p = (case p of Some n \<Rightarrow> if n \<noteq> 0 then n else 1 | None \<Rightarrow> 1)"

text \<open>\<^verbatim>\<open>parseInt(item.quantity, 10) || 1\<close>, of \<^verbatim>\<open>DataLoader\<close>.\<close>

definition quantity_of :: "item \<Rightarrow> int" where
  "quantity_of it = or_one (parseInt (ToString (quantity it)) (Some 10))"

text \<open>\<^verbatim>\<open>parseInt(item.quantity) || 1\<close>, of \<^verbatim>\<open>app.js\<close>.\<close>

definition app_quantity_of :: "item \<Rightarrow> int" where
  "app_quantity_of it = or_one (parseInt (ToString (quantity it)) None)"

section \<open>Identities\<close>

definition toLowerCase_char :: "char \<Rightarrow> char" where
  "toLowerCase_char c =
     (case map_of (zip ''ABCDEFGHIJKLMNOPQRSTUVWXYZ'' ''abcdefghijklmnopqrstuvwxyz'') c of
        Some l \<Rightarrow> l
      | None \<Rightarrow> c)"

definition alnum :: "char \<Rightarrow> bool" where
  "alnum c = (let n = (of_char c :: nat) in (97 \<le> n \<and> n \<le> 122) \<or> (48 \<le> n \<and> n \<le> 57))"

text \<open>
  \<^verbatim>\<open>s.toLowerCase().replace(/[^a-z0-9]/g, '-')\<close>. The letters beyond ASCII that
  \<^verbatim>\<open>toLowerCase\<close> changes are replaced by the dash in either case.
\<close>

definition slug :: "string \<Rightarrow> string" where
  "slug s = map (\<lambda>c. if alnum c then c else CHR ''-'') (map toLowerCase_char s)"

definition generateItemId :: "string \<Rightarrow> string \<Rightarrow> string" where
  "generateItemId nm req =
     (let baseId = slug nm in
      if req \<noteq> [] then baseId @ ''-'' @ slug req else baseId)"

definition generateGroupId :: "string \<Rightarrow> string" where
  "generateGroupId groupName = slug groupName"

section \<open>DataLoader\<close>

text \<open>
  An object used as a dictionary (\<^verbatim>\<open>projects\<close>, \<^verbatim>\<open>itemTotals\<close>, the groups, the
  combined view) is the list of its entries in insertion order. A loop that creates an
  entry when it is absent and then updates its fields in place is one update of the
  list with the final entry. The registry and the groups are read by their own keys:
  their definitions are for ids and requirement tokens that are not names of
  \<^verbatim>\<open>Object.prototype\<close>. The combined view is read as JavaScript reads a literal
  \<^verbatim>\<open>{}\<close>, inherited names included.
\<close>

record total_instance =
  i_projectName :: string
  i_quantity :: int
  i_requirement :: string

record item_total =
  totalNeeded :: int
  instances :: "total_instance list"

record data_loader =
  projects :: "(string \<times> item list) list"
  itemTotals :: "(string \<times> item_total) list"
  nonKeepableQuestItems :: "string list"

text \<open>The set the constructor of \<^verbatim>\<open>DataLoader\<close> builds.\<close>

definition DataLoader_nonKeepable :: "string list" where
  "DataLoader_nonKeepable =
     [''Burletta I'', ''Armored Patrol Key Card'', ''Battle Plans'', ''Battery Cell'',
      ''Celeste's Journal 1'', ''Celeste's Journal 2'', ''Communication Device'',
      ''Deflated Football'', ''Duct Tape'', ''ESR Analyzer'', ''Flag'', ''Helmet'',
      ''Major Aiva's Mementos'', ''Possibly Toxic Plant'', ''Romance Book'',
      ''Detective Book'', ''Adventure Book'', ''First Wave Tape'', ''First Wave Compass'',
      ''First Wave Rations'']"

text \<open>The set the constructor of \<^verbatim>\<open>ArcShoppingList\<close> (\<^verbatim>\<open>app.js\<close>) builds.\<close>

definition app_nonKeepable :: "string list" where
  "app_nonKeepable =
     [''Burletta I'', ''Armored Patrol Key Card'', ''Battle Plans'', ''Battery Cell'',
      ''Celeste's Journal 1'', ''Celeste's Journal 2'', ''Communication Device'',
      ''Deflated Football'', ''Duct Tape'', ''ESR Analyzer'', ''Flag'', ''Helmet'',
      ''LiDAR Scanner'', ''Major Aiva's Mementos'', ''Possibly Toxic Plant'', ''Romance Book'',
      ''Detective Book'', ''Adventure Book'', ''First Wave Tape'', ''First Wave Compass'',
      ''First Wave Rations'']"







text \<open>\<^verbatim>\<open>item.requirement.split(',').map(req => req.trim())\<close>\<close>

definition requirements_of :: "item \<Rightarrow> string list" where
  "requirements_of it = map trim (split (CHR '','') (requirement it))"

text \<open>
  \<^verbatim>\<open>groupItemsByRequirement\<close>: the copy of an item for one requirement, and the
  body of the inner \<^verbatim>\<open>forEach\<close>, which pushes the copy onto its group.
\<close>

definition itemForGroup :: "item \<Rightarrow> string \<Rightarrow> item" where
  "itemForGroup it req =
     it\<lparr>requirement := req, item_id := Some (generateItemId (name it) req)\<rparr>"

definition push_group :: "item \<Rightarrow> (string \<times> item list) list \<Rightarrow> string \<Rightarrow> (string \<times> item list) list" where
  "push_group it groups req =
     AList.update req
       ((case map_of groups req of Some g \<Rightarrow> g | None \<Rightarrow> []) @ [itemForGroup it req])
       groups"

definition build_groups :: "item list \<Rightarrow> (string \<times> item list) list" where
  "build_groups items = foldl (\<lambda>groups it. foldl (push_group it) groups (requirements_of it)) [] items"

definition hasKeepableItems :: "string list \<Rightarrow> item list \<Rightarrow> bool" where
  "hasKeepableItems nonKeepable groupItems = list_ex (\<lambda>it. name it \<notin> List.set nonKeepable) groupItems"

definition filter_groups :: "string list \<Rightarrow> (string \<times> item list) list \<Rightarrow> (string \<times> item list) list" where
  "filter_groups nonKeepable groups = filter (\<lambda>(groupName, groupItems). hasKeepableItems nonKeepable groupItems) groups"

text \<open>\<^verbatim>\<open>DataLoader.groupItemsByRequirement(items, projectName)\<close>\<close>

definition groupItemsByRequirement ::
  "data_loader \<Rightarrow> item list \<Rightarrow> string \<Rightarrow> (string \<times> item list) list" where
  "groupItemsByRequirement dl items pn =
     (let groups = build_groups items in
      if pn = ''Quest items'' then filter_groups (nonKeepableQuestItems dl) groups
      else groups)"

text \<open>
  \<^verbatim>\<open>groupItemsByRequirement(items)\<close> of \<^verbatim>\<open>app.js\<close>, which \<^verbatim>\<open>renderSingleProject\<close>
  calls for every project: it has no project name and always filters.
\<close>

definition app_groupItemsByRequirement ::
  "string list \<Rightarrow> item list \<Rightarrow> (string \<times> item list) list" where
  "app_groupItemsByRequirement nonKeepable items = filter_groups nonKeepable (build_groups items)"











section \<open>Notions of the specification\<close>


















text \<open>
  The groups, in the words of the specification: every item with each of its trimmed
  requirement tokens, and for a token the copies made for it, in order.
\<close>

definition tokens :: "item list \<Rightarrow> (item \<times> string) list" where
  "tokens items = concat (map (\<lambda>it. map (Pair it) (requirements_of it)) items)"

definition copies_for :: "string \<Rightarrow> (item \<times> string) list \<Rightarrow> item list" where
  "copies_for req toks =
     map (\<lambda>tok. itemForGroup (fst tok) req) (filter (\<lambda>tok. snd tok = req) toks)"

definition grouped :: "(string \<times> item list) list \<Rightarrow> (item \<times> string) list \<Rightarrow> bool" where
  "grouped groups seen =
     (distinct (map fst groups) \<and>
      (\<forall>req. map_of groups req =
         (if copies_for req seen = [] then None else Some (copies_for req seen))))"

section \<open>Concrete inputs\<close>

text \<open>A manager as the constructor leaves it, over an empty storage.\<close>

definition new_StateManager :: state_manager where
  "new_StateManager =
     \<lparr>state = JObj [], listeners = [], faulty = [], calls = [],
      localStorage = \<lparr>state_item = None, theme_item = None, writable = True\<rparr>\<rparr>"

text \<open>The manager after \<^verbatim>\<open>set('a', null)\<close>.\<close>

definition null_manager :: state_manager where
  "null_manager =
     new_StateManager\<lparr>state := JObj [(''a'', JNull)],
       localStorage := \<lparr>state_item = Some (JObj [(''a'', JNull)]), theme_item = None,
                         writable = True\<rparr>\<rparr>"


text \<open>A manager over a storage whose theme item is the empty string.\<close>

definition blank_theme_manager :: state_manager where
  "blank_theme_manager =
     new_StateManager\<lparr>state := JObj [(''theme'', JStr ''dark'')],
       localStorage := \<lparr>state_item = None, theme_item = Some [], writable = True\<rparr>\<rparr>"

text \<open>Items as \<^verbatim>\<open>groupItemsByRequirement\<close> would identify them, and a small catalog.\<close>

definition mk_item :: "string \<Rightarrow> raw \<Rightarrow> string \<Rightarrow> item" where
  "mk_item nm q req =
     \<lparr>name = nm, quantity = q, requirement = req,
      item_id = Some (generateItemId nm req), projectName = None\<rparr>"

definition minus_five :: item where
  "minus_five = mk_item ''Wire'' (RawStr ''-5'') ''Station X''"

definition three_cells :: item where
  "three_cells = mk_item ''Battery Cell'' (RawStr ''3'') ''Station X, Station Y''"

definition four_wires :: item where
  "four_wires = mk_item ''Wire'' (RawNum 4) ''Station X''"

definition two_tapes :: item where
  "two_tapes = mk_item ''Duct Tape'' (RawStr ''2'') ''Workbench 1''"

definition sample_loader :: data_loader where
  "sample_loader =
     \<lparr>projects = [(''Workshop items'', [three_cells, four_wires]),
                  (''Quest items'', [two_tapes, four_wires])],
      itemTotals = [],
      nonKeepableQuestItems = DataLoader_nonKeepable\<rparr>"








section \<open>The state store: reading and writing paths\<close>


lemma split_without: "c \<notin> List.set s \<Longrightarrow> split c s = [s]"
  by (induction s) auto

lemma split_at_first: "c \<notin> List.set p \<Longrightarrow> split c (p @ c # rest) = p # split c rest"
  by (induction p) auto




lemma in_keys_iff: "(k \<in> fst ` List.set ps) = (map_of ps k \<noteq> None)"
  by (simp add: map_of_eq_None_iff)

lemma get_walk_lookup:
  "get_walk ks d t = Inr (case path_lookup ks t of Some v \<Rightarrow> v | None \<Rightarrow> d)"
proof (induction ks arbitrary: t)
  case Nil
  show ?case by simp
next
  case (Cons k ks)
  show ?case
  proof (cases t)
    case (JObj ps)
    then show ?thesis using Cons.IH
      by (cases "map_of ps k") (auto simp: in_keys_iff)
  next
    case JProto
    then show ?thesis using Cons.IH by simp
  qed simp_all
qed

lemma get_lookup:
  "get path d sm =
     Inr (case path_lookup (split (CHR ''.'') path) (state sm) of Some v \<Rightarrow> v | None \<Rightarrow> d)"
  by (simp add: get_def get_walk_lookup)












text \<open>
  Claim C5. \<^verbatim>\<open>set(path, value)\<close> is claimed to return on every tree, overwriting an
  intermediate \<^verbatim>\<open>null\<close> as it does a number or a string. The test
  \<^verbatim>\<open>typeof current[key] !== 'object'\<close> lets \<^verbatim>\<open>null\<close> through: on a fresh manager
  \<^verbatim>\<open>set('a', null)\<close> returns, and \<^verbatim>\<open>set('a.b', 5)\<close> then throws a TypeError.
\<close>

theorem set_throws_on_null:
  "set_sm ''a'' JNull new_StateManager = Inr null_manager \<and>
   set_sm ''a.b'' (JNum 5) null_manager = Inl TypeError"
  by (simp add: set_sm_def null_manager_def new_StateManager_def notifyListeners_def
        saveState_def setItem_state_def prototype_names_def prototype_methods_def)





text \<open>
  Claim C10, as amended. \<^verbatim>\<open>clearState()\<close> returns with the tree holding an empty
  \<^verbatim>\<open>collapsed\<close> mapping and a theme, and with both storage items removed. The theme is
  the string that was stored under the theme key when that string was not empty, and
  \<^verbatim>\<open>'light'\<close> when the key was absent or held the empty string.
\<close>

theorem clearState_theme:
  "clearState sm =
     Inr (sm\<lparr>state := JObj [(''collapsed'', JObj []),
                           (''theme'', JStr (case theme_item (localStorage sm) of
                                               Some s \<Rightarrow> if s = [] then ''light'' else s
                                             | None \<Rightarrow> ''light''))],
            localStorage := (localStorage sm)\<lparr>state_item := None, theme_item := None\<rparr>\<rparr>)"
  by (simp add: clearState_def initializeStateStructure_def stored_theme_or_light_def
        removeItem_state_def removeItem_theme_def inherited_def prototype_methods_def
        split: option.splits)

text \<open>
  Claim C10 as stated fails where the theme key is present and holds the empty string:
  the theme after \<^verbatim>\<open>clearState()\<close> is \<^verbatim>\<open>'light'\<close>, not the stored value.
\<close>

theorem clearState_blank_theme:
  "theme_item (localStorage blank_theme_manager) = Some [] \<and>
   clearState blank_theme_manager =
     Inr (blank_theme_manager\<lparr>state := JObj [(''collapsed'', JObj []), (''theme'', JStr ''light'')],
            localStorage := \<lparr>state_item = None, theme_item = None, writable = True\<rparr>\<rparr>) \<and>
   get ''theme'' JUndef
     (blank_theme_manager\<lparr>state := JObj [(''collapsed'', JObj []), (''theme'', JStr ''light'')],
        localStorage := \<lparr>state_item = None, theme_item = None, writable = True\<rparr>\<rparr>)
     \<noteq> Inr (JStr [])"
  by (simp add: clearState_def initializeStateStructure_def stored_theme_or_light_def
        removeItem_state_def removeItem_theme_def blank_theme_manager_def new_StateManager_def
        get_def inherited_def prototype_methods_def)

section \<open>Quantities\<close>

lemma or_one_nonzero: "or_one p \<noteq> 0"
  by (simp add: or_one_def split: option.splits)

lemma parseInt_unsigned:
  assumes "take 1 (dropWhile js_space s) \<noteq> ''-''" and "parseInt s r = Some n"
  shows "0 \<le> n"
  using assms by (auto simp: parseInt_def Let_def split: if_splits)

lemma or_one_positive:
  assumes "take 1 (dropWhile js_space s) \<noteq> ''-''"
  shows "1 \<le> or_one (parseInt s r)"
proof (cases "parseInt s r")
  case None
  then show ?thesis by (simp add: or_one_def)
next
  case (Some n)
  with parseInt_unsigned[OF assms Some] show ?thesis by (simp add: or_one_def)
qed

text \<open>
  Claim C9, as amended. The quantity \<^verbatim>\<open>buildItemTotals\<close> and \<^verbatim>\<open>getAllItemsRemaining\<close>
  use (with radix 10 in \<^verbatim>\<open>DataLoader\<close>, without radix in \<^verbatim>\<open>app.js\<close>) is never 0 and
  parsing raises no error: it is the integer parse of the raw field when that parse is
  a number other than 0, and 1 when the parse is \<^verbatim>\<open>NaN\<close> or 0, as it is for a missing
  or \<^verbatim>\<open>null\<close> field. It is at least 1 when the text does not start, after white space,
  with a minus sign.
\<close>

theorem quantity_never_zero:
  "quantity_of it \<noteq> 0 \<and> app_quantity_of it \<noteq> 0 \<and>
   (\<forall>n. parseInt (ToString (quantity it)) (Some 10) = Some n \<and> n \<noteq> 0 \<longrightarrow> quantity_of it = n) \<and>
   (\<forall>n. parseInt (ToString (quantity it)) None = Some n \<and> n \<noteq> 0 \<longrightarrow> app_quantity_of it = n) \<and>
   (parseInt (ToString (quantity it)) (Some 10) \<in> {None, Some 0} \<longrightarrow> quantity_of it = 1) \<and>
   (parseInt (ToString (quantity it)) None \<in> {None, Some 0} \<longrightarrow> app_quantity_of it = 1) \<and>
   (quantity it \<in> {Missing, RawNull} \<longrightarrow> quantity_of it = 1 \<and> app_quantity_of it = 1) \<and>
   (take 1 (dropWhile js_space (ToString (quantity it))) \<noteq> ''-''
      \<longrightarrow> 1 \<le> quantity_of it \<and> 1 \<le> app_quantity_of it)"
proof -
  have missing: "quantity it \<in> {Missing, RawNull} \<longrightarrow> quantity_of it = 1 \<and> app_quantity_of it = 1"
    by (auto simp: quantity_of_def app_quantity_of_def or_one_def ToString_def parseInt_def
          js_space_def radix_digit_def digit_value_def)
  show ?thesis
    using missing or_one_positive[of "ToString (quantity it)"]
    by (auto simp: quantity_of_def app_quantity_of_def or_one_def split: option.splits)
qed

theorem quantity_never_zero_witness:
  "parseInt (ToString (quantity three_cells)) (Some 10) = Some 3 \<and>
   parseInt (ToString (quantity three_cells)) None = Some 3 \<and>
   take 1 (dropWhile js_space (ToString (quantity three_cells))) \<noteq> ''-'' \<and>
   quantity_of three_cells = 3 \<and> app_quantity_of three_cells = 3"
proof -
  have p: "parseInt (ToString (quantity three_cells)) (Some 10) = Some 3"
          "parseInt (ToString (quantity three_cells)) None = Some 3"
    by (simp_all add: three_cells_def mk_item_def ToString_def parseInt_def js_space_def
          radix_digit_def digit_value_def number_of_def)
  have s: "take 1 (dropWhile js_space (ToString (quantity three_cells))) \<noteq> ''-''"
    by (simp add: three_cells_def mk_item_def ToString_def js_space_def)
  show ?thesis
    using p s quantity_never_zero[of three_cells] by simp
qed

text \<open>
  Claim C9 as stated fails on a raw quantity with a minus sign: \<^verbatim>\<open>parseInt('-5')\<close> is
  \<open>-5\<close>, which is truthy, so the quantity used is \<open>-5\<close> and not at least 1.
\<close>

theorem negative_quantity:
  "quantity_of minus_five = - 5 \<and> app_quantity_of minus_five = - 5 \<and> \<not> 1 \<le> quantity_of minus_five"
  by (simp add: minus_five_def mk_item_def quantity_of_def app_quantity_of_def or_one_def
        ToString_def parseInt_def js_space_def radix_digit_def digit_value_def number_of_def)

section \<open>The registry of totals\<close>












section \<open>Completion lookups\<close>

lemma isItemCompleted_value:
  "isItemCompleted pn i sm =
     Inr (case path_lookup (split (CHR ''.'') (pn @ ''.'' @ i)) (state sm) of
            Some v \<Rightarrow> v | None \<Rightarrow> JBool False)"
  by (simp add: isItemCompleted_def get_lookup)



text \<open>
  For a project name and an identity without a dot the lookup is the two-level one:
  the tree keyed by project, then by identity, an absent entry being \<^verbatim>\<open>false\<close>.
\<close>

lemma isItemCompleted_two_level:
  assumes "CHR ''.'' \<notin> List.set pn" and "CHR ''.'' \<notin> List.set i"
  shows "isItemCompleted pn i sm =
           Inr (case path_lookup [pn, i] (state sm) of Some v \<Rightarrow> v | None \<Rightarrow> JBool False)"
  using assms by (simp add: isItemCompleted_value split_at_first split_without)

lemma dot_not_alnum: "\<not> alnum (CHR ''.'')"
  by (simp add: alnum_def)

lemma slug_no_dot: "CHR ''.'' \<notin> List.set (slug s)"
proof
  assume "CHR ''.'' \<in> List.set (slug s)"
  then have "CHR ''.'' \<in> (\<lambda>c. if alnum c then c else CHR ''-'') ` List.set (map toLowerCase_char s)"
    by (simp only: slug_def set_map)
  then obtain c where "CHR ''.'' = (if alnum c then c else CHR ''-'')"
    by blast
  then show False
    using dot_not_alnum by (cases "alnum c") auto
qed

lemma generateItemId_no_dot: "CHR ''.'' \<notin> List.set (generateItemId nm req)"
  by (simp add: generateItemId_def Let_def slug_no_dot)






section \<open>The combined view\<close>






















section \<open>Groups by requirement\<close>

lemma copies_for_snoc:
  "copies_for req (seen @ [(it, r)]) =
     (if r = req then copies_for req seen @ [itemForGroup it req] else copies_for req seen)"
  by (simp add: copies_for_def)

lemma push_group_grouped:
  assumes "grouped groups seen"
  shows "grouped (push_group it groups req) (seen @ [(it, req)])"
proof -
  have old: "(case map_of groups req of Some g \<Rightarrow> g | None \<Rightarrow> []) = copies_for req seen"
    using assms by (simp add: grouped_def)
  show ?thesis
    using assms unfolding push_group_def old
    by (simp add: grouped_def copies_for_snoc distinct_update update_conv')
qed

lemma inner_push_grouped:
  "grouped groups seen \<Longrightarrow> grouped (foldl (push_group it) groups reqs) (seen @ map (Pair it) reqs)"
proof (induction reqs arbitrary: groups seen)
  case Nil
  then show ?case by simp
next
  case (Cons req reqs)
  from Cons.IH[OF push_group_grouped[OF Cons.prems, of it req]] show ?case by simp
qed

lemma outer_push_grouped:
  "grouped groups seen \<Longrightarrow>
   grouped (foldl (\<lambda>groups it. foldl (push_group it) groups (requirements_of it)) groups items)
     (seen @ tokens items)"
proof (induction items arbitrary: groups seen)
  case Nil
  then show ?case by (simp add: tokens_def)
next
  case (Cons it items)
  from Cons.IH[OF inner_push_grouped[OF Cons.prems, of it "requirements_of it"]]
  show ?case by (simp add: tokens_def)
qed

lemma build_groups_grouped: "grouped (build_groups items) (tokens items)"
  unfolding build_groups_def using outer_push_grouped[of "[]" "[]" items]
  by (simp add: grouped_def copies_for_def)

lemma map_of_filter_distinct:
  "distinct (map fst al) \<Longrightarrow>
   map_of (filter P al) k = (case map_of al k of Some v \<Rightarrow> if P (k, v) then Some v else None | None \<Rightarrow> None)"
proof (induction al)
  case Nil
  show ?case by simp
next
  case (Cons a al)
  obtain k' v' where a: "a = (k', v')" by (cases a)
  from Cons.prems have notin: "map_of al k' = None"
    by (simp add: a map_of_eq_None_iff)
  from Cons show ?case
    by (cases "k = k'") (auto simp: a notin map_of_eq_None_iff split: option.splits)
qed

text \<open>
  \<^verbatim>\<open>DataLoader.groupItemsByRequirement\<close> does what claim C2 says: a token has the
  group of its copies, dropped only for the quest project and only when every copy is
  in the exclusion set. The function of \<^verbatim>\<open>app.js\<close> drops such a group for any project.
\<close>

lemma groupItemsByRequirement_groups:
  "map_of (groupItemsByRequirement dl items pn) req =
     (if copies_for req (tokens items) = [] then None
      else if pn = ''Quest items'' \<and>
              list_all (\<lambda>it. name it \<in> List.set (nonKeepableQuestItems dl)) (copies_for req (tokens items))
      then None
      else Some (copies_for req (tokens items)))"
  using build_groups_grouped[of items]
  by (auto simp: groupItemsByRequirement_def Let_def filter_groups_def hasKeepableItems_def
        grouped_def map_of_filter_distinct list_ex_iff list_all_iff)

lemma app_groupItemsByRequirement_groups:
  "map_of (app_groupItemsByRequirement nonKeepable items) req =
     (if copies_for req (tokens items) = [] then None
      else if list_all (\<lambda>it. name it \<in> List.set nonKeepable) (copies_for req (tokens items))
      then None
      else Some (copies_for req (tokens items)))"
  using build_groups_grouped[of items]
  by (auto simp: app_groupItemsByRequirement_def filter_groups_def hasKeepableItems_def
        grouped_def map_of_filter_distinct list_ex_iff list_all_iff)

lemma requirements_two_tapes: "requirements_of two_tapes = [''Workbench 1'']"
  by (simp add: requirements_of_def two_tapes_def mk_item_def trim_def js_space_def)

text \<open>
  Claim C2. Every group of a project other than the quest source is to be kept. For the
  workshop project and a group that holds only Duct Tape, \<^verbatim>\<open>DataLoader\<close> keeps the
  group and \<^verbatim>\<open>groupItemsByRequirement\<close> of \<^verbatim>\<open>app.js\<close>, which filters whatever the
  project, drops it.
\<close>

theorem app_drops_workshop_group:
  "groupItemsByRequirement sample_loader [two_tapes] ''Workshop items'' =
     [(''Workbench 1'', [two_tapes])] \<and>
   app_groupItemsByRequirement app_nonKeepable [two_tapes] = []"
  by (simp add: groupItemsByRequirement_def app_groupItemsByRequirement_def build_groups_def
        requirements_two_tapes push_group_def itemForGroup_def filter_groups_def
        hasKeepableItems_def app_nonKeepable_def)
    (simp add: two_tapes_def mk_item_def)

end
